theory Spec2Isabelle
  imports Complex_Main "HOL-Library.Log_Nat"
begin

section \<open>ECMAScript values the card and the provider rely on\<close>

text \<open>
  A number that the code only reads, tests for zero or prints (a coordinate of the
  configuration, a field of the card's configuration) is modelled by its value, a rational:
  every finite double is one.
\<close>

type_synonym number = rat

subsection \<open>Double-precision arithmetic\<close>

text \<open>
  Where the code computes with numbers, the model computes as the engine does: in IEEE 754
  binary64, every result rounded to the nearest double, ties to the even significand, with
  gradual underflow and with overflow to infinity. A double is a finite value (the two
  zeros are one value here: nothing in the card or the provider tells them apart), an
  infinity or \<^verbatim>\<open>NaN\<close>.
\<close>

datatype double = Finite rat | PosInfinity | NegInfinity | NaN

text \<open>The integer part of the binary logarithm of a positive rational.\<close>

definition ilog2 :: "rat \<Rightarrow> int" where
  "ilog2 x =
     (let p = fst (quotient_of x); q = snd (quotient_of x); d = bitlen p - bitlen q
      in if 2 powi d \<le> x then d else d - 1)"

definition roundHalfEven :: "rat \<Rightarrow> int" where
  "roundHalfEven x =
     (let f = \<lfloor>x\<rfloor>; r = x - of_int f
      in if r < 1 / 2 then f else if 1 / 2 < r then f + 1 else if even f then f else f + 1)"

text \<open>
  The exponent of the unit in the last place: 52 binary places below the leading bit, and
  never below the exponent of the subnormal numbers.
\<close>

definition ulpExponent :: "rat \<Rightarrow> int" where
  "ulpExponent x = max (ilog2 \<bar>x\<bar> - 52) (- 1074)"

definition overflowThreshold :: rat where
  "overflowThreshold = 2 ^ 1024"

text \<open>The double nearest to a rational: what an arithmetic operation returns for its exact result.\<close>

definition toDouble :: "rat \<Rightarrow> double" where
  "toDouble x =
     (if x = 0 then Finite 0
      else let u = 2 powi ulpExponent x;
               y = of_int (roundHalfEven (\<bar>x\<bar> / u)) * u
           in if overflowThreshold \<le> y then (if 0 < x then PosInfinity else NegInfinity)
              else Finite (if 0 < x then y else - y))"

text \<open>
  \<^verbatim>\<open>a * c\<close> and \<^verbatim>\<open>a / c\<close> for a positive constant c: the code multiplies by 10, 100
  and 1000 and divides by 10 and 22.5 only.
\<close>

definition mulPos :: "double \<Rightarrow> rat \<Rightarrow> double" where
  "mulPos a c = (case a of Finite x \<Rightarrow> toDouble (x * c) | _ \<Rightarrow> a)"

definition divPos :: "double \<Rightarrow> rat \<Rightarrow> double" where
  "divPos a c = (case a of Finite x \<Rightarrow> toDouble (x / c) | _ \<Rightarrow> a)"

text \<open>
  \<^verbatim>\<open>Math.round(a)\<close>: the integer nearest to a, ties towards plus infinity. The result is
  exact: it is a double whenever a is.
\<close>

definition Math_round :: "double \<Rightarrow> double" where
  "Math_round a = (case a of Finite x \<Rightarrow> Finite (of_int \<lfloor>x + 1 / 2\<rfloor>) | _ \<Rightarrow> a)"

text \<open>
  \<^verbatim>\<open>a % c\<close> for a positive constant c: the remainder of the division truncated towards
  zero, so it has the sign of a; it is exact. The remainder of an infinity is \<^verbatim>\<open>NaN\<close>.
\<close>

definition remPos :: "double \<Rightarrow> rat \<Rightarrow> double" where
  "remPos a c =
     (case a of
        Finite x \<Rightarrow> Finite (if 0 \<le> x then x - c * of_int \<lfloor>x / c\<rfloor>
                            else x - c * of_int \<lceil>x / c\<rceil>)
      | _ \<Rightarrow> NaN)"

text \<open>\<^verbatim>\<open>!a\<close> on a double: zero and \<^verbatim>\<open>NaN\<close> are falsy.\<close>

definition falsyNumber :: "double \<Rightarrow> bool" where
  "falsyNumber a = (a = Finite 0 \<or> a = NaN)"

text \<open>
  \<^verbatim>\<open>xs[i]\<close> on an array with a number as index: the element when the number is an integer
  inside the array, \<^verbatim>\<open>undefined\<close> (here None) otherwise.
\<close>

definition js_index :: "'a list \<Rightarrow> double \<Rightarrow> 'a option" where
  "js_index xs i =
     (case i of
        Finite x \<Rightarrow>
          if x = of_int \<lfloor>x\<rfloor> \<and> 0 \<le> x \<and> x < of_nat (length xs)
          then Some (xs ! nat \<lfloor>x\<rfloor>) else None
      | _ \<Rightarrow> None)"

text \<open>
  \<^verbatim>\<open>new Date(a)\<close>, as the time value it holds: the number of milliseconds truncated to an
  integer, or \<^verbatim>\<open>NaN\<close> (an invalid date) beyond 8.64e15 milliseconds either way.
\<close>

definition newDate :: "double \<Rightarrow> double" where
  "newDate a =
     (case a of
        Finite x \<Rightarrow>
          if 8640000000000000 < \<bar>x\<bar> then NaN
          else Finite (of_int (if 0 \<le> x then \<lfloor>x\<rfloor> else \<lceil>x\<rceil>))
      | _ \<Rightarrow> NaN)"

subsection \<open>Objects and strings\<close>

text \<open>
  \<^verbatim>\<open>obj[key]\<close> on an object literal. The literal's own properties come first; a key
  that is not an own property is looked up in \<^verbatim>\<open>Object.prototype\<close>, whose properties
  (all of them functions or objects, so truthy) every object literal inherits.
\<close>

datatype 'a property = Own 'a | Inherited string

definition objectPrototypeKeys :: "string list" where
  "objectPrototypeKeys =
     [''constructor'', ''hasOwnProperty'', ''isPrototypeOf'', ''propertyIsEnumerable'',
      ''toLocaleString'', ''toString'', ''valueOf'', ''__proto__'',
      ''__defineGetter__'', ''__defineSetter__'', ''__lookupGetter__'', ''__lookupSetter__'']"

definition getProperty :: "(string \<times> 'a) list \<Rightarrow> string \<Rightarrow> 'a property option" where
  "getProperty obj key =
     (case map_of obj key of
        Some v \<Rightarrow> Some (Own v)
      | None \<Rightarrow> if key \<in> set objectPrototypeKeys then Some (Inherited key) else None)"

text \<open>Decimal rendering of a non-negative integer, as a template literal prints it.\<close>

fun decimal :: "nat \<Rightarrow> string" where
  "decimal n = (if n < 10 then [''0123456789'' ! n]
                else decimal (n div 10) @ [''0123456789'' ! (n mod 10)])"

declare decimal.simps [simp del]

section \<open>The Pirate Weather provider\<close>

definition directions :: "string list" where
  "directions = [''N'', ''NNE'', ''NE'', ''ENE'', ''E'', ''ESE'', ''SE'', ''SSE'',
                 ''S'', ''SSW'', ''SW'', ''WSW'', ''W'', ''WNW'', ''NW'', ''NNW'']"

definition bearingToDirection :: "double \<Rightarrow> string option" where
  "bearingToDirection bearing =
     (let index = remPos (Math_round (divPos bearing (45 / 2))) 16
      in js_index directions index)"

text \<open>
  Modelled from the spec: the enum \<^verbatim>\<open>Weather\<close>, the unified condition vocabulary, whose
  declaration is in the module of the image sources. The datatype has the members that
  the specification lists and that either copy of the provider names (one copy says
  \<^verbatim>\<open>ClearSky\<close> and \<^verbatim>\<open>Mist\<close>, the other \<^verbatim>\<open>Clear\<close> and \<^verbatim>\<open>Fog\<close>);
  \<open>AllWeather\<close> stands for \<^verbatim>\<open>Weather.All\<close>, the catch-all. The members are taken to be
  non-empty strings at run time, hence truthy.
\<close>

datatype Weather =
  AllWeather | ClearSky | Clear | Clouds | Rain | Snow | Mist | Fog | Wind | Thunderstorm | Extreme

text \<open>
  The vendor payload, as \<^verbatim>\<open>response.json()\<close> delivers it: every number is a double. Both
  copies of the provider declare the same interfaces, except that only one of them declares
  \<^verbatim>\<open>visibility\<close>, which neither reads.
\<close>

record PirateWeatherCurrently =
  c_time :: double
  c_summary :: string
  c_icon :: string
  c_temperature :: double
  c_apparentTemperature :: double
  c_humidity :: double
  c_pressure :: double
  c_windSpeed :: double
  c_windGust :: "double option"
  c_windBearing :: double
  c_cloudCover :: double
  c_uvIndex :: double
  c_visibility :: double

record PirateWeatherDaily =
  d_time :: double
  d_summary :: string
  d_icon :: string
  d_temperatureHigh :: double
  d_temperatureLow :: double
  d_temperatureMax :: double
  d_temperatureMin :: double
  d_apparentTemperatureHigh :: double
  d_apparentTemperatureLow :: double
  d_humidity :: double
  d_pressure :: double
  d_windSpeed :: double
  d_windGust :: "double option"
  d_windBearing :: double
  d_cloudCover :: double
  d_uvIndex :: double

record PirateWeatherDailyBlock =
  b_summary :: string
  b_icon :: string
  b_data :: "PirateWeatherDaily list"

record PirateWeatherResponse =
  pw_latitude :: double
  pw_longitude :: double
  pw_timezone :: string
  pw_currently :: PirateWeatherCurrently
  pw_daily :: PirateWeatherDailyBlock

text \<open>
  What the host's engine prints for a number and for an inherited property of
  \<^verbatim>\<open>Object.prototype\<close> inside a template literal is left to the engine.
\<close>

record engine =
  numberToString :: "number \<Rightarrow> string"
  inheritedToString :: "string \<Rightarrow> string"

definition templateString :: "engine \<Rightarrow> string property \<Rightarrow> string" where
  "templateString eng p = (case p of Own s \<Rightarrow> s | Inherited k \<Rightarrow> inheritedToString eng k)"

text \<open>
  \<^verbatim>\<open>a || b\<close>: b when a is falsy. A number is falsy when it is zero or \<^verbatim>\<open>NaN\<close>, a
  string when it is empty, a looked-up property when it is \<^verbatim>\<open>undefined\<close> or an empty
  string.
\<close>

definition orNumber :: "double \<Rightarrow> double \<Rightarrow> double" where
  "orNumber a b = (if falsyNumber a then b else a)"

definition orString :: "string property option \<Rightarrow> string \<Rightarrow> string property" where
  "orString p d =
     (case p of
        None \<Rightarrow> Own d
      | Some (Own s) \<Rightarrow> if s = [] then Own d else Own s
      | Some (Inherited k) \<Rightarrow> Inherited k)"

definition formatCondition :: "string \<Rightarrow> string" where
  "formatCondition summary = (if summary = [] then ''Unknown'' else summary)"

definition unitsMap :: "(string \<times> string) list" where
  "unitsMap = [(''metric'', ''si''), (''imperial'', ''us'')]"

definition mapUnits :: "string \<Rightarrow> string property" where
  "mapUnits units = orString (getProperty unitsMap units) ''si''"

subsection \<open>The copy under weather-providers: rounds what it displays\<close>

definition iconMap :: "(string \<times> Weather) list" where
  "iconMap =
     [(''clear-day'', ClearSky), (''clear-night'', ClearSky), (''rain'', Rain),
      (''snow'', Snow), (''sleet'', Snow), (''wind'', Clouds), (''fog'', Mist),
      (''cloudy'', Clouds), (''partly-cloudy-day'', Clouds),
      (''partly-cloudy-night'', Clouds), (''hail'', Snow), (''thunderstorm'', Rain),
      (''tornado'', Clouds)]"

definition mapIconToCondition :: "string \<Rightarrow> Weather property" where
  "mapIconToCondition icon =
     (case getProperty iconMap icon of Some v \<Rightarrow> v | None \<Rightarrow> Own AllWeather)"

definition iconMapping :: "(string \<times> string) list" where
  "iconMapping =
     [(''clear-day'', ''01d''), (''clear-night'', ''01n''), (''rain'', ''10d''),
      (''snow'', ''13d''), (''sleet'', ''13d''), (''wind'', ''50d''), (''fog'', ''50d''),
      (''cloudy'', ''04d''), (''partly-cloudy-day'', ''02d''),
      (''partly-cloudy-night'', ''02n''), (''hail'', ''09d''), (''thunderstorm'', ''11d''),
      (''tornado'', ''50d'')]"

definition getIconUrl :: "engine \<Rightarrow> string \<Rightarrow> string" where
  "getIconUrl eng icon =
     (let mappedIcon = orString (getProperty iconMapping icon) ''01d''
      in ''https://openweathermap.org/img/wn/'' @ templateString eng mappedIcon @ ''@2x.png'')"

record DailyWeather =
  dw_date :: double
  dw_temperatureMax :: double
  dw_temperatureMin :: double
  dw_condition :: string
  dw_conditionUnified :: "Weather property"
  dw_icon :: string
  dw_humidity :: double
  dw_pressure :: double
  dw_windSpeed :: double
  dw_windGust :: "double option"
  dw_windBearing :: double
  dw_cloudCover :: double
  dw_uvIndex :: double

record CurrentWeather =
  cur_temperature :: double
  cur_feelsLike :: double
  cur_condition :: string
  cur_conditionUnified :: "Weather property"
  cur_icon :: string
  cur_humidity :: double
  cur_pressure :: double
  cur_windSpeed :: double
  cur_windDirection :: "string option"

record WeatherData =
  wd_current :: CurrentWeather
  wd_daily :: "DailyWeather list"

definition transformDailyWeather :: "engine \<Rightarrow> PirateWeatherDaily \<Rightarrow> DailyWeather" where
  "transformDailyWeather eng day =
     \<lparr> dw_date = newDate (mulPos (d_time day) 1000),
       dw_temperatureMax = Math_round (orNumber (d_temperatureMax day) (d_temperatureHigh day)),
       dw_temperatureMin = Math_round (orNumber (d_temperatureMin day) (d_temperatureLow day)),
       dw_condition = formatCondition (d_summary day),
       dw_conditionUnified = mapIconToCondition (d_icon day),
       dw_icon = getIconUrl eng (d_icon day),
       dw_humidity = Math_round (mulPos (d_humidity day) 100),
       dw_pressure = Math_round (d_pressure day),
       dw_windSpeed = divPos (Math_round (mulPos (d_windSpeed day) 10)) 10,
       dw_windGust = (case d_windGust day of
                        None \<Rightarrow> None
                      | Some g \<Rightarrow> if falsyNumber g then None
                                  else Some (divPos (Math_round (mulPos g 10)) 10)),
       dw_windBearing = d_windBearing day,
       dw_cloudCover = Math_round (mulPos (d_cloudCover day) 100),
       dw_uvIndex = d_uvIndex day \<rparr>"

definition transformResponse :: "engine \<Rightarrow> PirateWeatherResponse \<Rightarrow> WeatherData" where
  "transformResponse eng data =
     (let currently = pw_currently data;
          daily = b_data (pw_daily data);
          conditionUnified = mapIconToCondition (c_icon currently);
          currentIcon = getIconUrl eng (c_icon currently);
          windDirection = bearingToDirection (c_windBearing currently)
      in \<lparr> wd_current =
             \<lparr> cur_temperature = Math_round (c_temperature currently),
               cur_feelsLike = Math_round (c_apparentTemperature currently),
               cur_condition = formatCondition (c_summary currently),
               cur_conditionUnified = conditionUnified,
               cur_icon = currentIcon,
               cur_humidity = Math_round (mulPos (c_humidity currently) 100),
               cur_pressure = Math_round (c_pressure currently),
               cur_windSpeed = divPos (Math_round (mulPos (c_windSpeed currently) 10)) 10,
               cur_windDirection = windDirection \<rparr>,
           wd_daily = map (transformDailyWeather eng) (take 7 daily) \<rparr>)"

subsection \<open>The second copy of the provider: passes the vendor's numbers through\<close>

definition iconMap_p0 :: "(string \<times> Weather) list" where
  "iconMap_p0 =
     [(''clear-day'', Clear), (''clear-night'', Clear), (''rain'', Rain),
      (''snow'', Snow), (''sleet'', Snow), (''wind'', Wind), (''fog'', Fog),
      (''cloudy'', Clouds), (''partly-cloudy-day'', Clouds),
      (''partly-cloudy-night'', Clouds), (''hail'', Snow), (''thunderstorm'', Thunderstorm),
      (''tornado'', Extreme)]"

definition mapIconToCondition_p0 :: "string \<Rightarrow> Weather property" where
  "mapIconToCondition_p0 icon =
     (case getProperty iconMap_p0 icon of Some v \<Rightarrow> v | None \<Rightarrow> Own AllWeather)"

definition baseIconUrl :: string where
  "baseIconUrl = ''https://raw.githubusercontent.com/manifestinteractive/weather-underground-icons/master/dist/icons/white/png/64x64''"

definition iconMapping_p0 :: "(string \<times> string) list" where
  "iconMapping_p0 =
     [(''clear-day'', baseIconUrl @ ''/clear.png''),
      (''clear-night'', baseIconUrl @ ''/nt_clear.png''),
      (''rain'', baseIconUrl @ ''/rain.png''),
      (''snow'', baseIconUrl @ ''/snow.png''),
      (''sleet'', baseIconUrl @ ''/sleet.png''),
      (''wind'', baseIconUrl @ ''/wind.png''),
      (''fog'', baseIconUrl @ ''/fog.png''),
      (''cloudy'', baseIconUrl @ ''/cloudy.png''),
      (''partly-cloudy-day'', baseIconUrl @ ''/partlycloudy.png''),
      (''partly-cloudy-night'', baseIconUrl @ ''/nt_partlycloudy.png''),
      (''hail'', baseIconUrl @ ''/sleet.png''),
      (''thunderstorm'', baseIconUrl @ ''/tstorms.png''),
      (''tornado'', baseIconUrl @ ''/tornado.png'')]"

definition getIconUrl_p0 :: "string \<Rightarrow> string property" where
  "getIconUrl_p0 icon = orString (getProperty iconMapping_p0 icon) (baseIconUrl @ ''/cloudy.png'')"

record DailyWeather_p0 =
  dw_date_p0 :: double
  dw_temperatureMax_p0 :: double
  dw_temperatureMin_p0 :: double
  dw_condition_p0 :: string
  dw_conditionUnified_p0 :: "Weather property"
  dw_icon_p0 :: "string property"
  dw_humidity_p0 :: double
  dw_pressure_p0 :: double
  dw_windSpeed_p0 :: double
  dw_windGust_p0 :: "double option"
  dw_windBearing_p0 :: double
  dw_cloudCover_p0 :: double
  dw_uvIndex_p0 :: double

record CurrentWeather_p0 =
  cur_temperature_p0 :: double
  cur_feelsLike_p0 :: double
  cur_condition_p0 :: string
  cur_conditionUnified_p0 :: "Weather property"
  cur_icon_p0 :: "string property"
  cur_humidity_p0 :: double
  cur_pressure_p0 :: double
  cur_windSpeed_p0 :: double
  cur_windDirection_p0 :: "string option"
  cur_uvIndex_p0 :: double

record Location =
  loc_latitude :: double
  loc_longitude :: double
  loc_timezone :: string

record WeatherData_p0 =
  wd_current_p0 :: CurrentWeather_p0
  wd_daily_p0 :: "DailyWeather_p0 list"
  wd_location_p0 :: Location

definition transformDailyWeather_p0 :: "PirateWeatherDaily \<Rightarrow> DailyWeather_p0" where
  "transformDailyWeather_p0 day =
     \<lparr> dw_date_p0 = newDate (mulPos (d_time day) 1000),
       dw_temperatureMax_p0 = orNumber (d_temperatureMax day) (d_temperatureHigh day),
       dw_temperatureMin_p0 = orNumber (d_temperatureMin day) (d_temperatureLow day),
       dw_condition_p0 = formatCondition (d_summary day),
       dw_conditionUnified_p0 = mapIconToCondition_p0 (d_icon day),
       dw_icon_p0 = getIconUrl_p0 (d_icon day),
       dw_humidity_p0 = mulPos (d_humidity day) 100,
       dw_pressure_p0 = d_pressure day,
       dw_windSpeed_p0 = d_windSpeed day,
       dw_windGust_p0 = d_windGust day,
       dw_windBearing_p0 = d_windBearing day,
       dw_cloudCover_p0 = mulPos (d_cloudCover day) 100,
       dw_uvIndex_p0 = d_uvIndex day \<rparr>"

definition transformResponse_p0 :: "PirateWeatherResponse \<Rightarrow> string \<Rightarrow> WeatherData_p0" where
  "transformResponse_p0 data units_unused =
     (let currently = pw_currently data;
          daily = b_data (pw_daily data);
          conditionUnified = mapIconToCondition_p0 (c_icon currently);
          currentIcon = getIconUrl_p0 (c_icon currently);
          windDirection = bearingToDirection (c_windBearing currently)
      in \<lparr> wd_current_p0 =
             \<lparr> cur_temperature_p0 = c_temperature currently,
               cur_feelsLike_p0 = c_apparentTemperature currently,
               cur_condition_p0 = formatCondition (c_summary currently),
               cur_conditionUnified_p0 = conditionUnified,
               cur_icon_p0 = currentIcon,
               cur_humidity_p0 = mulPos (c_humidity currently) 100,
               cur_pressure_p0 = c_pressure currently,
               cur_windSpeed_p0 = c_windSpeed currently,
               cur_windDirection_p0 = windDirection,
               cur_uvIndex_p0 = c_uvIndex currently \<rparr>,
           wd_daily_p0 = map transformDailyWeather_p0 (take 7 daily),
           wd_location_p0 =
             \<lparr> loc_latitude = pw_latitude data,
               loc_longitude = pw_longitude data,
               loc_timezone = pw_timezone data \<rparr> \<rparr>)"

subsection \<open>Fetching: validation, one request, one handler for everything thrown\<close>

text \<open>
  Modelled from the spec: \<^verbatim>\<open>WeatherProviderConfig\<close>, declared in the provider's module of
  types: the API key, the latitude, the longitude and the units. A field that the
  configuration leaves out is \<^verbatim>\<open>undefined\<close>, here None.
\<close>

record WeatherProviderConfig =
  cfg_apiKey :: "string option"
  cfg_latitude :: "number option"
  cfg_longitude :: "number option"
  cfg_units :: "string option"

definition getDefaultConfig :: WeatherProviderConfig where
  "getDefaultConfig =
     \<lparr> cfg_apiKey = Some [], cfg_latitude = Some 0, cfg_longitude = Some 0,
       cfg_units = Some ''metric'' \<rparr>"

text \<open>\<^verbatim>\<open>!x\<close> on an optional string and on an optional number.\<close>

definition notString :: "string option \<Rightarrow> bool" where
  "notString x = (case x of None \<Rightarrow> True | Some s \<Rightarrow> s = [])"

definition notNumber :: "number option \<Rightarrow> bool" where
  "notNumber x = (case x of None \<Rightarrow> True | Some n \<Rightarrow> n = 0)"

text \<open>\<^verbatim>\<open>config.units || 'metric'\<close>.\<close>

definition unitsOrMetric :: "string option \<Rightarrow> string" where
  "unitsOrMetric u =
     (case u of None \<Rightarrow> ''metric'' | Some s \<Rightarrow> if s = [] then ''metric'' else s)"

text \<open>An optional field inside a template literal: \<^verbatim>\<open>undefined\<close> prints as that word.\<close>

definition templateOptString :: "string option \<Rightarrow> string" where
  "templateOptString x = (case x of None \<Rightarrow> ''undefined'' | Some s \<Rightarrow> s)"

definition templateOptNumber :: "engine \<Rightarrow> number option \<Rightarrow> string" where
  "templateOptNumber eng x = (case x of None \<Rightarrow> ''undefined'' | Some n \<Rightarrow> numberToString eng n)"

text \<open>
  What a \<^verbatim>\<open>catch\<close> clause can receive: an instance of \<^verbatim>\<open>Error\<close> with its message, or
  any other thrown value. What the provider itself throws is always \<^verbatim>\<open>new Error(message)\<close>.
\<close>

datatype thrown = ErrorInstance string | OtherValue

datatype error = Error string

text \<open>
  The network: \<^verbatim>\<open>fetch(url)\<close> rejects, or resolves to a response with a status, a
  status text and a body that \<^verbatim>\<open>response.json()\<close> parses or fails on;
  \<^verbatim>\<open>response.ok\<close> says that the status is in the range 200 to 299. A body that does not
  have the shape of the vendor's interfaces makes the transformation throw inside the same
  \<^verbatim>\<open>try\<close> block; it counts as a failing \<^verbatim>\<open>json\<close> here.
\<close>

record response =
  status :: nat
  statusText :: string
  json :: "thrown + PirateWeatherResponse"

definition ok :: "response \<Rightarrow> bool" where
  "ok r = (200 \<le> status r \<and> status r \<le> 299)"

datatype fetched = Rejected thrown | Resolved response

definition baseUrl :: string where
  "baseUrl = ''https://api.pirateweather.net/forecast''"

definition buildUrl :: "engine \<Rightarrow> WeatherProviderConfig \<Rightarrow> string" where
  "buildUrl eng config =
     (let pirateUnits = mapUnits (unitsOrMetric (cfg_units config))
      in baseUrl @ ''/'' @ templateOptString (cfg_apiKey config) @ ''/''
         @ templateOptNumber eng (cfg_latitude config) @ '',''
         @ templateOptNumber eng (cfg_longitude config)
         @ ''?units='' @ templateString eng pirateUnits)"

text \<open>The body of the \<^verbatim>\<open>try\<close> block, given what \<^verbatim>\<open>fetch\<close> settled with.\<close>

definition tryBlock :: "(PirateWeatherResponse \<Rightarrow> 'w) \<Rightarrow> fetched \<Rightarrow> thrown + 'w" where
  "tryBlock transform f =
     (case f of
        Rejected t \<Rightarrow> Inl t
      | Resolved r \<Rightarrow>
          if \<not> ok r
          then Inl (ErrorInstance
                 (''Pirate Weather API error: '' @ decimal (status r) @ '' '' @ statusText r))
          else (case json r of Inl t \<Rightarrow> Inl t | Inr data \<Rightarrow> Inr (transform data)))"

definition catchBlock :: "thrown \<Rightarrow> error" where
  "catchBlock t =
     (case t of
        ErrorInstance message \<Rightarrow> Error (''Failed to fetch Pirate Weather data: '' @ message)
      | OtherValue \<Rightarrow> Error ''Failed to fetch Pirate Weather data'')"

text \<open>
  The result of a call: the URLs requested, in order, and the rejection (Inl) or the value
  (Inr) the returned promise settles with. The two copies differ in the transformation only.
\<close>

definition fetchWith ::
  "(PirateWeatherResponse \<Rightarrow> 'w) \<Rightarrow> engine \<Rightarrow> (string \<Rightarrow> fetched) \<Rightarrow> WeatherProviderConfig
     \<Rightarrow> string list \<times> (error + 'w)" where
  "fetchWith transform eng fetch config =
     (if notString (cfg_apiKey config)
      then ([], Inl (Error ''Pirate Weather API key is required''))
      else if notNumber (cfg_latitude config) \<or> notNumber (cfg_longitude config)
      then ([], Inl (Error ''Latitude and longitude are required''))
      else let url = buildUrl eng config
           in ([url],
               case tryBlock transform (fetch url) of
                 Inr w \<Rightarrow> Inr w
               | Inl t \<Rightarrow> Inl (catchBlock t)))"

definition fetchWeatherAsync ::
  "engine \<Rightarrow> (string \<Rightarrow> fetched) \<Rightarrow> WeatherProviderConfig
     \<Rightarrow> string list \<times> (error + WeatherData)" where
  "fetchWeatherAsync eng fetch config = fetchWith (transformResponse eng) eng fetch config"

definition fetchWeatherAsync_p0 ::
  "engine \<Rightarrow> (string \<Rightarrow> fetched) \<Rightarrow> WeatherProviderConfig
     \<Rightarrow> string list \<times> (error + WeatherData_p0)" where
  "fetchWeatherAsync_p0 eng fetch config =
     fetchWith (\<lambda>data. transformResponse_p0 data (unitsOrMetric (cfg_units config)))
       eng fetch config"

section \<open>The card: the readiness barrier and what follows it\<close>

text \<open>
  Modelled from the spec: \<^verbatim>\<open>WallClockConfig\<close>, declared in the card's module of types.
  The configuration comes from the dashboard, so a field holds whatever the user wrote,
  or nothing. Only the fields that \<^verbatim>\<open>initConnectCallbackAsync\<close> reads are kept.
\<close>

datatype jsval =
  JUndefined | JNull | JBool bool | JNumber number | JNaN | JString string | JObject

definition truthy :: "jsval \<Rightarrow> bool" where
  "truthy v =
     (case v of
        JUndefined \<Rightarrow> False
      | JNull \<Rightarrow> False
      | JBool b \<Rightarrow> b
      | JNumber n \<Rightarrow> n \<noteq> 0
      | JNaN \<Rightarrow> False
      | JString s \<Rightarrow> s \<noteq> []
      | JObject \<Rightarrow> True)"

definition orValue :: "jsval \<Rightarrow> jsval \<Rightarrow> jsval" where
  "orValue a b = (if truthy a then a else b)"

record WallClockConfig =
  fontColor :: jsval
  transportation :: jsval
  logLevel :: jsval
  showWeather :: jsval

text \<open>The six sub-components whose \<^verbatim>\<open>controller.ready\<close> the card awaits, in the order of the array.\<close>

datatype component =
  WeatherComponent | BackgroundImageComponent | ClockComponent | SensorComponent
  | TransportationComponent | ActionBarComponent

definition awaited :: "component list" where
  "awaited = [WeatherComponent, BackgroundImageComponent, ClockComponent, SensorComponent,
              TransportationComponent, ActionBarComponent]"

text \<open>
  What the function does to the world, in the order it does it. \<open>ConfigureLogger v\<close> is the
  call of \<^verbatim>\<open>configureLogger\<close> with the level that \<^verbatim>\<open>getLogLevelFromString(v)\<close> gives;
  \<open>Publish w\<close> is \<^verbatim>\<open>Messenger.getInstance().publish(new WeatherMessage(w))\<close>.
\<close>

datatype effect =
  SetTransportationFontColor jsval
  | SetTransportation jsval
  | ConfigureLogger jsval
  | LoadTranslations
  | LoggerDebug string
  | LoggerError string thrown
  | Publish Weather

text \<open>
  The function suspends twice: at \<^verbatim>\<open>await Promise.all([...])\<close> and at
  \<^verbatim>\<open>await loadTranslationsAsync()\<close>. Between two suspensions it runs without interruption.
\<close>

datatype phase = AwaitingReady | AwaitingTranslations | Returned

record card =
  phase :: phase
  ready :: "component set"
  effects :: "effect list"

text \<open>
  Modelled from the spec: \<^verbatim>\<open>controller.ready\<close> of a sub-component, a promise that
  resolves once and for good when the sub-component has finished its own setup, or never;
  the controllers are declared with the components. So what happens around the function
  while it is suspended is: a readiness promise resolves (a second resolution changes
  nothing), or the translation loading settles, by returning or by throwing.
\<close>

datatype event = ReadyResolved component | TranslationsLoaded | TranslationsThrew thrown

definition mounted :: card where
  "mounted = \<lparr> phase = AwaitingReady, ready = {}, effects = [] \<rparr>"

text \<open>From the first \<^verbatim>\<open>await\<close> to the second.\<close>

definition afterBarrier :: "WallClockConfig \<Rightarrow> effect list" where
  "afterBarrier config =
     [SetTransportationFontColor (fontColor config),
      SetTransportation (transportation config),
      ConfigureLogger (orValue (logLevel config) (JString ''info'')),
      LoadTranslations]"

text \<open>From the second \<^verbatim>\<open>await\<close> to the end: the \<^verbatim>\<open>try\<close> or the \<^verbatim>\<open>catch\<close> branch, then the guard.\<close>

definition afterTranslations :: "WallClockConfig \<Rightarrow> thrown option \<Rightarrow> effect list" where
  "afterTranslations config outcome =
     (case outcome of
        None \<Rightarrow> [LoggerDebug ''Loaded translations for all languages'']
      | Some e \<Rightarrow> [LoggerError ''Error loading translations:'' e])
     @ (if \<not> truthy (showWeather config) then [Publish AllWeather] else [])"

definition settle :: "WallClockConfig \<Rightarrow> thrown option \<Rightarrow> card \<Rightarrow> card" where
  "settle config outcome s =
     (if phase s = AwaitingTranslations
      then s\<lparr> phase := Returned, effects := effects s @ afterTranslations config outcome \<rparr>
      else s)"

definition step :: "WallClockConfig \<Rightarrow> event \<Rightarrow> card \<Rightarrow> card" where
  "step config ev s =
     (case ev of
        ReadyResolved c \<Rightarrow>
          (let s' = s\<lparr> ready := insert c (ready s) \<rparr>
           in if phase s = AwaitingReady \<and> list_all (\<lambda>k. k \<in> ready s') awaited
              then s'\<lparr> phase := AwaitingTranslations,
                       effects := effects s' @ afterBarrier config \<rparr>
              else s')
      | TranslationsLoaded \<Rightarrow> settle config None s
      | TranslationsThrew e \<Rightarrow> settle config (Some e) s)"

fun run :: "WallClockConfig \<Rightarrow> event list \<Rightarrow> card \<Rightarrow> card" where
  "run config [] s = s"
| "run config (ev # evs) s = run config evs (step config ev s)"

definition initConnectCallbackAsync :: "WallClockConfig \<Rightarrow> event list \<Rightarrow> card" where
  "initConnectCallbackAsync config evs = run config evs mounted"

definition published :: "card \<Rightarrow> Weather list" where
  "published s = concat (map (\<lambda>e. case e of Publish w \<Rightarrow> [w] | _ \<Rightarrow> []) (effects s))"

section \<open>Concrete inputs\<close>

definition sampleEngine :: engine where
  "sampleEngine =
     \<lparr> numberToString = (\<lambda>n. if n = 50 then ''50'' else ''14''),
       inheritedToString = (\<lambda>k. ''function '' @ k) \<rparr>"

definition sampleConfig :: WeatherProviderConfig where
  "sampleConfig =
     \<lparr> cfg_apiKey = Some ''key'', cfg_latitude = Some 50, cfg_longitude = Some 14,
       cfg_units = Some ''metric'' \<rparr>"

definition zeroLatitudeConfig :: WeatherProviderConfig where
  "zeroLatitudeConfig =
     \<lparr> cfg_apiKey = Some ''key'', cfg_latitude = Some 0, cfg_longitude = Some 14,
       cfg_units = None \<rparr>"

definition sampleCurrently :: PirateWeatherCurrently where
  "sampleCurrently =
     \<lparr> c_time = Finite 1700000000, c_summary = ''Clear'', c_icon = ''clear-day'',
       c_temperature = Finite (43 / 2), c_apparentTemperature = Finite 20,
       c_humidity = Finite (1 / 8), c_pressure = Finite (2025 / 2),
       c_windSpeed = Finite (27 / 8), c_windGust = None, c_windBearing = Finite 359,
       c_cloudCover = Finite (3 / 8), c_uvIndex = Finite 4, c_visibility = Finite 10 \<rparr>"

definition sampleDay :: "nat \<Rightarrow> PirateWeatherDaily" where
  "sampleDay i =
     \<lparr> d_time = Finite (1700000000 + 86400 * of_nat i), d_summary = [],
       d_icon = ''sleet'', d_temperatureHigh = Finite 22, d_temperatureLow = Finite 9,
       d_temperatureMax = Finite (45 / 2), d_temperatureMin = Finite 0,
       d_apparentTemperatureHigh = Finite 21, d_apparentTemperatureLow = Finite 8,
       d_humidity = Finite (1 / 8), d_pressure = Finite (2025 / 2),
       d_windSpeed = Finite (27 / 8), d_windGust = Some (Finite (5 / 4)),
       d_windBearing = Finite 180, d_cloudCover = Finite (3 / 8), d_uvIndex = Finite 4 \<rparr>"

text \<open>A day whose humidity and cloud cover are the doubles that 0.015 and 0.07 parse to.\<close>

definition decimalDay :: PirateWeatherDaily where
  "decimalDay =
     (sampleDay 0) \<lparr> d_humidity := toDouble (3 / 200), d_cloudCover := toDouble (7 / 100) \<rparr>"

definition sampleResponse :: PirateWeatherResponse where
  "sampleResponse =
     \<lparr> pw_latitude = Finite 50, pw_longitude = Finite 14, pw_timezone = ''Europe/Prague'',
       pw_currently = sampleCurrently,
       pw_daily = \<lparr> b_summary = ''Clear'', b_icon = ''clear-day'',
                    b_data = map sampleDay [0, 1, 2, 3, 4, 5, 6, 7, 8, 9] \<rparr> \<rparr>"

definition respondNotFound :: "string \<Rightarrow> fetched" where
  "respondNotFound url =
     Resolved \<lparr> status = 404, statusText = ''Not Found'', json = Inl OtherValue \<rparr>"

definition rejectWithMessage :: "string \<Rightarrow> string \<Rightarrow> fetched" where
  "rejectWithMessage message url = Rejected (ErrorInstance message)"

definition respondSample :: "string \<Rightarrow> fetched" where
  "respondSample url =
     Resolved \<lparr> status = 200, statusText = ''OK'', json = Inr sampleResponse \<rparr>"

definition weatherOffConfig :: WallClockConfig where
  "weatherOffConfig =
     \<lparr> fontColor = JString ''255,255,255'', transportation = JObject, logLevel = JUndefined,
       showWeather = JBool False \<rparr>"

definition weatherOnConfig :: WallClockConfig where
  "weatherOnConfig =
     \<lparr> fontColor = JString ''255,255,255'', transportation = JObject,
       logLevel = JString ''debug'', showWeather = JBool True \<rparr>"

definition weatherUnsetConfig :: WallClockConfig where
  "weatherUnsetConfig =
     \<lparr> fontColor = JUndefined, transportation = JUndefined, logLevel = JUndefined,
       showWeather = JUndefined \<rparr>"

definition allReady :: "event list" where
  "allReady =
     [ReadyResolved ClockComponent, ReadyResolved SensorComponent,
      ReadyResolved WeatherComponent, ReadyResolved ActionBarComponent,
      ReadyResolved TransportationComponent, ReadyResolved BackgroundImageComponent]"

definition fiveReady :: "event list" where
  "fiveReady =
     [ReadyResolved ClockComponent, ReadyResolved SensorComponent, TranslationsLoaded,
      ReadyResolved WeatherComponent, ReadyResolved ActionBarComponent,
      ReadyResolved TransportationComponent, ReadyResolved ClockComponent]"

section \<open>Properties of the provider's fetch\<close>

lemma fetchWith_invalid:
  assumes "cfg_apiKey config \<in> {None, Some []} \<or> cfg_latitude config \<in> {None, Some 0}
           \<or> cfg_longitude config \<in> {None, Some 0}"
  shows "fetchWith transform eng fetch config =
           ([], Inl (Error (if cfg_apiKey config \<in> {None, Some []}
                            then ''Pirate Weather API key is required''
                            else ''Latitude and longitude are required'')))"
  using assms by (auto simp: fetchWith_def notString_def notNumber_def split: option.splits)

lemma fetchWith_valid:
  assumes "cfg_apiKey config = Some key" "key \<noteq> []"
    and "cfg_latitude config = Some lat" "lat \<noteq> 0"
    and "cfg_longitude config = Some lon" "lon \<noteq> 0"
  shows "fetchWith transform eng fetch config =
           ([buildUrl eng config],
            case tryBlock transform (fetch (buildUrl eng config)) of
              Inr w \<Rightarrow> Inr w
            | Inl t \<Rightarrow> Inl (catchBlock t))"
  using assms by (simp add: fetchWith_def notString_def notNumber_def Let_def)

text \<open>
  Claim C1. Whenever the API key is absent or empty, or the latitude is absent or zero, or
  the longitude is absent or zero, both copies of \<^verbatim>\<open>fetchWeatherAsync\<close> reject with an
  error that names what is missing, and the list of requested URLs is empty: nothing was
  sent to the network.
\<close>

theorem fetchWeatherAsync_rejects_unset_config:
  assumes "cfg_apiKey config \<in> {None, Some []} \<or> cfg_latitude config \<in> {None, Some 0}
           \<or> cfg_longitude config \<in> {None, Some 0}"
  shows "fst (fetchWeatherAsync eng fetch config) = []
       \<and> fst (fetchWeatherAsync_p0 eng fetch config) = []
       \<and> snd (fetchWeatherAsync eng fetch config) =
           Inl (Error (if cfg_apiKey config \<in> {None, Some []}
                       then ''Pirate Weather API key is required''
                       else ''Latitude and longitude are required''))
       \<and> snd (fetchWeatherAsync_p0 eng fetch config) =
           Inl (Error (if cfg_apiKey config \<in> {None, Some []}
                       then ''Pirate Weather API key is required''
                       else ''Latitude and longitude are required''))"
  unfolding fetchWeatherAsync_def fetchWeatherAsync_p0_def
  by (simp only: fetchWith_invalid [OF assms] fst_conv snd_conv simp_thms)

theorem fetchWeatherAsync_rejects_unset_config_witness:
  "cfg_latitude zeroLatitudeConfig \<in> {None, Some 0}
   \<and> fetchWeatherAsync sampleEngine respondSample zeroLatitudeConfig =
       ([], Inl (Error ''Latitude and longitude are required''))
   \<and> fetchWeatherAsync_p0 sampleEngine respondSample zeroLatitudeConfig =
       ([], Inl (Error ''Latitude and longitude are required''))"
proof -
  have unset: "cfg_apiKey zeroLatitudeConfig \<in> {None, Some []}
      \<or> cfg_latitude zeroLatitudeConfig \<in> {None, Some 0}
      \<or> cfg_longitude zeroLatitudeConfig \<in> {None, Some 0}"
    by (simp add: zeroLatitudeConfig_def)
  have key: "cfg_apiKey zeroLatitudeConfig \<notin> {None, Some []}"
    by (simp add: zeroLatitudeConfig_def)
  show ?thesis
    using fetchWeatherAsync_rejects_unset_config [OF unset, of sampleEngine respondSample] key
    by (simp add: prod_eq_iff zeroLatitudeConfig_def)
qed

text \<open>
  Claim C10. The default configuration has an empty API key and zero coordinates, all of
  which the validation reads as unset: fetching with it rejects in both copies, whatever
  the network would answer, and requests nothing.
\<close>

theorem fetchWeatherAsync_default_config_rejects:
  "fetchWeatherAsync eng fetch getDefaultConfig =
     ([], Inl (Error ''Pirate Weather API key is required''))
   \<and> fetchWeatherAsync_p0 eng fetch getDefaultConfig =
     ([], Inl (Error ''Pirate Weather API key is required''))
   \<and> notString (cfg_apiKey getDefaultConfig)
   \<and> notNumber (cfg_latitude getDefaultConfig)
   \<and> notNumber (cfg_longitude getDefaultConfig)"
  by (simp add: fetchWeatherAsync_def fetchWeatherAsync_p0_def fetchWith_def
      getDefaultConfig_def notString_def notNumber_def)

theorem fetchWeatherAsync_default_config_rejects_witness:
  "fst (fetchWeatherAsync sampleEngine respondSample getDefaultConfig) = []
   \<and> snd (fetchWeatherAsync_p0 sampleEngine respondNotFound getDefaultConfig) =
       Inl (Error ''Pirate Weather API key is required'')"
  using fetchWeatherAsync_default_config_rejects [of sampleEngine respondSample]
    fetchWeatherAsync_default_config_rejects [of sampleEngine respondNotFound]
  by simp

section \<open>Properties of the double-precision arithmetic\<close>

text \<open>The overflow threshold as a numeral, for evaluation.\<close>

lemma overflowThreshold_numeral [code]:
  "overflowThreshold = 179769313486231590772930519078902473361797697894230657273430081157732675805500963132708477322407536021120113879871393357658789768814416622492847430639474124377767893424865485276302219601246094119453082952085005768838150682342462881473913110540827237163350510684586298239947245938479716304835356329624224137216"
  unfolding overflowThreshold_def by simp

lemma roundHalfEven_bounds:
  "of_int (roundHalfEven x) \<le> x + 1 / 2" "x - 1 / 2 \<le> of_int (roundHalfEven x)"
  unfolding roundHalfEven_def Let_def by (auto; linarith)+

lemma roundHalfEven_le: "x \<le> of_int M \<Longrightarrow> roundHalfEven x \<le> M"
proof -
  assume a: "x \<le> of_int M"
  then have f: "\<lfloor>x\<rfloor> \<le> M" by (simp add: floor_le_iff)
  show ?thesis
  proof (cases "x = of_int \<lfloor>x\<rfloor>")
    case True
    then have "x - of_int \<lfloor>x\<rfloor> < 1 / 2" by simp
    then show ?thesis using f by (simp add: roundHalfEven_def Let_def)
  next
    case False
    then have "of_int \<lfloor>x\<rfloor> < x" using of_int_floor_le [of x] by linarith
    with a have "(of_int \<lfloor>x\<rfloor> :: rat) < of_int M" by linarith
    then have "\<lfloor>x\<rfloor> < M" by (simp only: of_int_less_iff)
    then show ?thesis by (simp add: roundHalfEven_def Let_def)
  qed
qed

lemma roundHalfEven_ge: "of_int M \<le> x \<Longrightarrow> M \<le> roundHalfEven x"
proof -
  assume "of_int M \<le> x"
  then have "M \<le> \<lfloor>x\<rfloor>" by (simp add: le_floor_iff)
  then show ?thesis by (simp add: roundHalfEven_def Let_def)
qed

lemma ilog2_le:
  assumes "0 < x"
  shows "2 powi ilog2 x \<le> x"
proof -
  obtain p q where pq: "quotient_of x = (p, q)" by (cases "quotient_of x")
  then have x: "x = of_int p / of_int q" and q: "0 < q"
    by (rule quotient_of_div, rule quotient_of_denom_pos)
  from assms x q have p: "0 < p" by (simp add: zero_less_divide_iff)
  define d where "d = bitlen p - bitlen q"
  have bp: "2 ^ nat (bitlen p - 1) \<le> p" and bq: "q < 2 ^ nat (bitlen q)"
    using bitlen_bounds [OF p] bitlen_bounds [OF q] by simp_all
  have bp1: "1 \<le> bitlen p" using p bitlen_eq_zero_iff [of p] bitlen_nonneg [of p] by linarith
  have low: "2 powi (d - 1) \<le> x"
  proof -
    have dd: "d - 1 = (bitlen p - 1) - bitlen q" by (simp add: d_def)
    have "(2::rat) powi (d - 1) = 2 powi (bitlen p - 1) / 2 powi bitlen q"
      unfolding dd by (rule power_int_diff) simp
    also have "\<dots> = 2 ^ nat (bitlen p - 1) / 2 ^ nat (bitlen q)"
      using bp1 bitlen_nonneg [of q] by (simp add: power_int_def)
    also have "\<dots> \<le> of_int p / of_int q"
    proof (rule frac_le)
      show "(0::rat) \<le> of_int p" using p by simp
      have "(of_int (2 ^ nat (bitlen p - 1)) :: rat) \<le> of_int p"
        using bp by (simp only: of_int_le_iff)
      then show "(2::rat) ^ nat (bitlen p - 1) \<le> of_int p" by simp
      show "(0::rat) < of_int q" using q by simp
      have "(of_int q :: rat) \<le> of_int (2 ^ nat (bitlen q))"
        using bq by (simp only: of_int_le_iff)
      then show "(of_int q :: rat) \<le> 2 ^ nat (bitlen q)" by simp
    qed
    finally show ?thesis using x by simp
  qed
  have "ilog2 x = (if 2 powi d \<le> x then d else d - 1)"
    by (simp add: ilog2_def pq d_def Let_def)
  then show ?thesis using low by (cases "2 powi d \<le> x") simp_all
qed

lemma ilog2_less:
  assumes "0 < x" "x < 2 powi k"
  shows "ilog2 x < k"
proof (rule ccontr)
  assume "\<not> ilog2 x < k"
  then have "k \<le> ilog2 x" by simp
  then have "(2::rat) powi k \<le> 2 powi ilog2 x" by (simp add: power_int_increasing)
  with ilog2_le [OF assms(1)] assms(2) show False by linarith
qed


lemma toDouble_bounded:
  assumes "0 < x" "x \<le> of_nat B" "B < 2 ^ k" "k \<le> 53"
  shows "\<exists>y. toDouble x = Finite y \<and> 0 \<le> y \<and> y \<le> of_nat B \<and> \<bar>y - x\<bar> \<le> 2 powi (int k - 54)"
proof -
  define e where "e = ulpExponent x"
  define u :: rat where "u = 2 powi e"
  define r where "r = roundHalfEven (x / u)"
  define y where "y = of_int r * u"
  have "(of_nat B :: rat) < of_nat (2 ^ k)" using assms(3) by (simp only: of_nat_less_iff)
  then have Bk: "(of_nat B :: rat) < 2 ^ k" by simp
  with assms(2) have "x < 2 ^ k" by linarith
  then have "x < 2 powi int k" by simp
  from ilog2_less [OF assms(1) this] have il: "ilog2 x \<le> int k - 1" by simp
  have e_le: "e \<le> int k - 53" and e0: "e \<le> 0"
    using il assms(4) by (simp_all add: e_def ulpExponent_def abs_of_pos [OF assms(1)])
  have u_pos: "0 < u" by (simp add: u_def)
  have u_le: "u \<le> 2 powi (int k - 53)"
    unfolding u_def using e_le by (simp add: power_int_increasing)
  have u_inv: "1 / u = 2 ^ nat (- e)"
    using e0 by (cases "e = 0") (simp_all add: u_def power_int_def field_simps)
  have r0: "0 \<le> r"
    unfolding r_def using assms(1) u_pos by (intro roundHalfEven_ge) simp
  have y0: "0 \<le> y" using r0 u_pos by (simp add: y_def)
  have "x / u \<le> of_nat B * (1 / u)"
    using assms(2) u_pos by (simp add: divide_right_mono)
  also have "\<dots> = of_int (int B * 2 ^ nat (- e))" by (simp add: u_inv)
  finally have "r \<le> int B * 2 ^ nat (- e)" unfolding r_def by (rule roundHalfEven_le)
  then have "(of_int r :: rat) \<le> of_int (int B * 2 ^ nat (- e))" by (simp only: of_int_le_iff)
  then have "of_int r \<le> of_nat B * (1 / u)" by (simp add: u_inv)
  then have "of_int r * u \<le> of_nat B * (1 / u) * u"
    using u_pos by (intro mult_right_mono) simp_all
  then have yB: "y \<le> of_nat B" using u_pos by (simp add: y_def)
  have "\<bar>of_int r - x / u\<bar> \<le> 1 / 2"
    using roundHalfEven_bounds [of "x / u"] unfolding r_def by linarith
  then have "\<bar>of_int r - x / u\<bar> * u \<le> 1 / 2 * u"
    using u_pos by (intro mult_right_mono) simp_all
  moreover have "\<bar>of_int r - x / u\<bar> * u = \<bar>y - x\<bar>"
  proof -
    have "\<bar>of_int r - x / u\<bar> * u = \<bar>(of_int r - x / u) * u\<bar>"
      using u_pos by (simp add: abs_mult)
    also have "(of_int r - x / u) * u = y - x"
      using u_pos by (simp add: y_def field_simps)
    finally show ?thesis .
  qed
  ultimately have "\<bar>y - x\<bar> \<le> 1 / 2 * u" by simp
  also have "\<dots> \<le> 1 / 2 * 2 powi (int k - 53)" using u_le by simp
  also have "\<dots> = 2 powi (int k - 54)"
  proof -
    have "(2::rat) powi (int k - 53) = 2 powi (int k - 54 + 1)" by simp
    also have "\<dots> = 2 powi (int k - 54) * 2" by (subst power_int_add) simp_all
    finally show ?thesis by simp
  qed
  finally have err: "\<bar>y - x\<bar> \<le> 2 powi (int k - 54)" .
  have "y < overflowThreshold"
  proof -
    have "y < 2 ^ k" using yB Bk by linarith
    also have "(2::rat) ^ k \<le> 2 ^ 1024"
      using assms(4) by (intro power_increasing) simp_all
    finally show ?thesis by (simp add: overflowThreshold_def)
  qed
  then have "toDouble x = Finite y"
    using assms(1) by (simp add: toDouble_def Let_def abs_of_pos e_def u_def r_def y_def)
  with y0 yB err show ?thesis by blast
qed

lemma toDouble_zero: "toDouble 0 = Finite 0"
  by (simp add: toDouble_def)

lemma toDouble_range:
  assumes "0 \<le> x" "x \<le> of_nat B" "B < 2 ^ k" "k \<le> 53"
  shows "\<exists>y. toDouble x = Finite y \<and> 0 \<le> y \<and> y \<le> of_nat B \<and> \<bar>y - x\<bar> \<le> 2 powi (int k - 54)"
proof (cases "x = 0")
  case True
  then show ?thesis by (simp add: toDouble_zero)
next
  case False
  with assms(1) have "0 < x" by simp
  from toDouble_bounded [OF this assms(2-4)] show ?thesis .
qed

section \<open>Properties of the normalisation\<close>

lemma percent_product:
  assumes "0 \<le> h" "h \<le> 1"
  shows "\<exists>y. mulPos (Finite h) 100 = Finite y \<and> 0 \<le> y \<and> y \<le> 100 \<and> \<bar>y - h * 100\<bar> \<le> 1 / 2 ^ 47"
proof -
  have a: "0 \<le> h * 100" "h * 100 \<le> of_nat 100" using assms by simp_all
  from toDouble_range [OF a, of 7] obtain y where
    y: "toDouble (h * 100) = Finite y" "0 \<le> y" "y \<le> of_nat 100"
       "\<bar>y - h * 100\<bar> \<le> 2 powi (int 7 - 54)"
    by auto
  have "(2::rat) powi (int 7 - 54) = 1 / 2 ^ 47"
    by (simp add: power_int_def field_simps)
  with y show ?thesis by (simp add: mulPos_def)
qed

lemma percent_rounded:
  assumes "0 \<le> h" "h \<le> 1"
  shows "\<exists>n::int. Math_round (mulPos (Finite h) 100) = Finite (of_int n) \<and> 0 \<le> n \<and> n \<le> 100
           \<and> \<bar>of_int n - h * 100\<bar> \<le> 1 / 2 + 1 / 2 ^ 47"
proof -
  from percent_product [OF assms] obtain y where
    y: "mulPos (Finite h) 100 = Finite y" "0 \<le> y" "y \<le> 100" "\<bar>y - h * 100\<bar> \<le> 1 / 2 ^ 47"
    by blast
  define n where "n = \<lfloor>y + 1 / 2\<rfloor>"
  have r: "Math_round (mulPos (Finite h) 100) = Finite (of_int n)"
    by (simp add: y(1) Math_round_def n_def)
  have n0: "0 \<le> n" unfolding n_def using y(2) by simp
  have "y + 1 / 2 < 101" using y(3) by simp
  then have "n < 101" unfolding n_def by (simp add: floor_less_iff)
  then have n100: "n \<le> 100" by simp
  have "of_int n \<le> y + 1 / 2" "y + 1 / 2 < of_int n + 1"
    unfolding n_def by linarith+
  then have "\<bar>of_int n - y\<bar> \<le> 1 / 2" by linarith
  with y(4) have "\<bar>of_int n - h * 100\<bar> \<le> 1 / 2 + 1 / 2 ^ 47" by linarith
  with r n0 n100 show ?thesis by blast
qed

lemma half_not_int: "(25 / 2 :: rat) \<notin> \<int>"
proof
  assume "(25 / 2 :: rat) \<in> \<int>"
  then obtain k :: int where "(25 / 2 :: rat) = of_int k" by (rule Ints_cases)
  then have "(of_int (2 * k) :: rat) = of_int 25" by simp
  then have "2 * k = 25" by (simp only: of_int_eq_iff)
  then show False by presburger
qed

text \<open>
  Claim C3, as stated, fails on the copy of the provider that does not round: the sample
  response has humidity 0.125, and the normalised current humidity is 12.5, which is not
  an integer.
\<close>

theorem humidity_p0_not_integer:
  "c_humidity (pw_currently sampleResponse) = Finite (1 / 8)
   \<and> cur_humidity_p0 (wd_current_p0 (transformResponse_p0 sampleResponse ''metric''))
       = Finite (25 / 2)
   \<and> (25 / 2 :: rat) \<notin> \<int>"
proof -
  have p: "mulPos (Finite (1 / 8)) 100 = Finite (25 / 2)" by code_simp
  have v: "cur_humidity_p0 (wd_current_p0 (transformResponse_p0 sampleResponse ''metric''))
             = Finite (25 / 2)"
    by (simp add: transformResponse_p0_def sampleResponse_def sampleCurrently_def Let_def p)
  have i: "c_humidity (pw_currently sampleResponse) = Finite (1 / 8)"
    by (simp add: sampleResponse_def sampleCurrently_def)
  from i v half_not_int show ?thesis by blast
qed

text \<open>
  Claim C3, amended. For a humidity or cloud cover in [0,1], the copy under
  weather-providers yields \<^verbatim>\<open>Math.round\<close> of the double product of the input and 100: an
  integer from 0 to 100, within 1/2 + 2^-47 of the exact product (the product is rounded
  to a double first, so a half-way case may go either way). The other copy yields the
  double product itself: a number in [0,100] within 2^-47 of the exact product, which need
  not be an integer.
\<close>

theorem percentages_normalised_per_copy:
  assumes "d_humidity day = Finite h" "0 \<le> h" "h \<le> 1"
    and "d_cloudCover day = Finite c" "0 \<le> c" "c \<le> 1"
    and "c_humidity (pw_currently data) = Finite g" "0 \<le> g" "g \<le> 1"
  shows "(dw_humidity (transformDailyWeather eng day) = Math_round (mulPos (Finite h) 100)
          \<and> (\<exists>n::int. dw_humidity (transformDailyWeather eng day) = Finite (of_int n)
                \<and> 0 \<le> n \<and> n \<le> 100 \<and> \<bar>of_int n - h * 100\<bar> \<le> 1 / 2 + 1 / 2 ^ 47))
       \<and> (dw_cloudCover (transformDailyWeather eng day) = Math_round (mulPos (Finite c) 100)
          \<and> (\<exists>n::int. dw_cloudCover (transformDailyWeather eng day) = Finite (of_int n)
                \<and> 0 \<le> n \<and> n \<le> 100 \<and> \<bar>of_int n - c * 100\<bar> \<le> 1 / 2 + 1 / 2 ^ 47))
       \<and> (cur_humidity (wd_current (transformResponse eng data))
              = Math_round (mulPos (Finite g) 100)
          \<and> (\<exists>n::int. cur_humidity (wd_current (transformResponse eng data)) = Finite (of_int n)
                \<and> 0 \<le> n \<and> n \<le> 100 \<and> \<bar>of_int n - g * 100\<bar> \<le> 1 / 2 + 1 / 2 ^ 47))
       \<and> (dw_humidity_p0 (transformDailyWeather_p0 day) = mulPos (Finite h) 100
          \<and> (\<exists>y. dw_humidity_p0 (transformDailyWeather_p0 day) = Finite y
                \<and> 0 \<le> y \<and> y \<le> 100 \<and> \<bar>y - h * 100\<bar> \<le> 1 / 2 ^ 47))
       \<and> (dw_cloudCover_p0 (transformDailyWeather_p0 day) = mulPos (Finite c) 100
          \<and> (\<exists>y. dw_cloudCover_p0 (transformDailyWeather_p0 day) = Finite y
                \<and> 0 \<le> y \<and> y \<le> 100 \<and> \<bar>y - c * 100\<bar> \<le> 1 / 2 ^ 47))
       \<and> (cur_humidity_p0 (wd_current_p0 (transformResponse_p0 data u))
              = mulPos (Finite g) 100
          \<and> (\<exists>y. cur_humidity_p0 (wd_current_p0 (transformResponse_p0 data u)) = Finite y
                \<and> 0 \<le> y \<and> y \<le> 100 \<and> \<bar>y - g * 100\<bar> \<le> 1 / 2 ^ 47))"
proof -
  have a: "dw_humidity (transformDailyWeather eng day) = Math_round (mulPos (Finite h) 100)"
    and b: "dw_cloudCover (transformDailyWeather eng day) = Math_round (mulPos (Finite c) 100)"
    by (simp_all add: transformDailyWeather_def assms(1,4))
  have cc: "cur_humidity (wd_current (transformResponse eng data))
             = Math_round (mulPos (Finite g) 100)"
    by (simp add: transformResponse_def Let_def assms(7))
  have a0: "dw_humidity_p0 (transformDailyWeather_p0 day) = mulPos (Finite h) 100"
    and b0: "dw_cloudCover_p0 (transformDailyWeather_p0 day) = mulPos (Finite c) 100"
    by (simp_all add: transformDailyWeather_p0_def assms(1,4))
  have c0: "cur_humidity_p0 (wd_current_p0 (transformResponse_p0 data u))
              = mulPos (Finite g) 100"
    by (simp add: transformResponse_p0_def Let_def assms(7))
  show ?thesis
    unfolding a b cc a0 b0 c0
    using percent_rounded [OF assms(2,3)] percent_rounded [OF assms(5,6)]
      percent_rounded [OF assms(8,9)] percent_product [OF assms(2,3)]
      percent_product [OF assms(5,6)] percent_product [OF assms(8,9)]
    by simp
qed

lemma decimal_doubles:
  "toDouble (3 / 200) = Finite (1080863910568919 / 72057594037927936)"
  "toDouble (7 / 100) = Finite (1261007895663739 / 18014398509481984)"
  by code_simp+

theorem percentages_normalised_per_copy_witness:
  "d_humidity decimalDay = Finite (1080863910568919 / 72057594037927936)
   \<and> (0::rat) \<le> 1080863910568919 / 72057594037927936
   \<and> (1080863910568919 / 72057594037927936 :: rat) \<le> 1
   \<and> dw_humidity (transformDailyWeather sampleEngine decimalDay) = Finite 2
   \<and> dw_cloudCover (transformDailyWeather sampleEngine decimalDay) = Finite 7
   \<and> dw_cloudCover_p0 (transformDailyWeather_p0 decimalDay)
       = Finite (7881299347898369 / 1125899906842624)
   \<and> cur_humidity (wd_current (transformResponse sampleEngine sampleResponse)) = Finite 13"
proof -
  have h: "d_humidity decimalDay = Finite (1080863910568919 / 72057594037927936)"
    and c: "d_cloudCover decimalDay = Finite (1261007895663739 / 18014398509481984)"
    by (simp_all add: decimalDay_def decimal_doubles)
  have g: "c_humidity (pw_currently sampleResponse) = Finite (1 / 8)"
    by (simp add: sampleResponse_def sampleCurrently_def)
  have r: "(0::rat) \<le> 1080863910568919 / 72057594037927936"
    "(1080863910568919 / 72057594037927936 :: rat) \<le> 1"
    "(0::rat) \<le> 1261007895663739 / 18014398509481984"
    "(1261007895663739 / 18014398509481984 :: rat) \<le> 1"
    "(0::rat) \<le> 1 / 8" "(1 / 8 :: rat) \<le> 1"
    by simp_all
  have v1: "Math_round (mulPos (Finite (1080863910568919 / 72057594037927936)) 100) = Finite 2"
    by code_simp
  have v2: "mulPos (Finite (1261007895663739 / 18014398509481984)) 100
              = Finite (7881299347898369 / 1125899906842624)"
    by code_simp
  have v3: "Math_round (Finite (7881299347898369 / 1125899906842624)) = Finite 7"
    by code_simp
  have v4: "Math_round (mulPos (Finite (1 / 8)) 100) = Finite 13"
    by code_simp
  note t = percentages_normalised_per_copy
             [OF h r(1,2) c r(3,4) g r(5,6), of sampleEngine "''metric''"]
  from t have a: "dw_humidity (transformDailyWeather sampleEngine decimalDay) = Finite 2"
    by (simp add: v1)
  from t have b: "dw_cloudCover (transformDailyWeather sampleEngine decimalDay) = Finite 7"
    by (simp add: v2 v3)
  from t have d: "dw_cloudCover_p0 (transformDailyWeather_p0 decimalDay)
       = Finite (7881299347898369 / 1125899906842624)"
    by (simp add: v2)
  from t have e: "cur_humidity (wd_current (transformResponse sampleEngine sampleResponse)) = Finite 13"
    by (simp add: v4)
  from h r(1,2) a b d e show ?thesis by blast
qed

lemma directions_nth_mem: "directions ! (k mod 16) \<in> set directions"
  by (rule nth_mem) (simp add: directions_def)

lemma bearingToDirection_up_to_360:
  assumes "0 \<le> b" "b \<le> 360"
  shows "\<exists>k::nat. bearingToDirection (Finite b) = Some (directions ! (k mod 16))
           \<and> \<bar>of_nat k - b / (45 / 2)\<bar> \<le> 1 / 2 + 1 / 2 ^ 49"
proof -
  have a: "0 \<le> b / (45 / 2)" "b / (45 / 2) \<le> of_nat 16" using assms by simp_all
  from toDouble_range [OF a, of 5] obtain q where
    q: "toDouble (b / (45 / 2)) = Finite q" "0 \<le> q" "q \<le> of_nat 16"
       "\<bar>q - b / (45 / 2)\<bar> \<le> 2 powi (int 5 - 54)"
    by auto
  have p: "(2::rat) powi (int 5 - 54) = 1 / 2 ^ 49"
    by (simp add: power_int_def field_simps)
  define n where "n = \<lfloor>q + 1 / 2\<rfloor>"
  have n0: "0 \<le> n" unfolding n_def using q(2) by simp
  have "q + 1 / 2 < 17" using q(3) by simp
  then have "n < 17" unfolding n_def by (simp add: floor_less_iff)
  have "of_int n \<le> q + 1 / 2" "q + 1 / 2 < of_int n + 1"
    unfolding n_def by linarith+
  then have "\<bar>of_int n - q\<bar> \<le> 1 / 2" by linarith
  with q(4) p have err: "\<bar>of_int n - b / (45 / 2)\<bar> \<le> 1 / 2 + 1 / 2 ^ 49" by linarith
  have fl: "\<lfloor>(of_int n :: rat) / 16\<rfloor> = n div 16"
    using floor_divide_of_int_eq [of n 16, where ?'a = rat] by simp
  have "(of_int n :: rat) - 16 * of_int (n div 16) = of_int (n - 16 * (n div 16))" by simp
  also have "n - 16 * (n div 16) = n mod 16" by (simp add: minus_mult_div_eq_mod)
  finally have rem: "remPos (Finite (of_int n)) 16 = Finite (of_int (n mod 16))"
    using n0 by (simp add: remPos_def fl)
  have m: "0 \<le> n mod 16" "n mod 16 < 16" by simp_all
  have idx: "js_index directions (Finite (of_int (n mod 16))) = Some (directions ! nat (n mod 16))"
    using m by (simp add: js_index_def directions_def)
  have dq: "divPos (Finite b) (45 / 2) = Finite q"
    using q(1) by (simp add: divPos_def)
  have mr: "Math_round (Finite q) = Finite (of_int n)"
    by (simp add: Math_round_def n_def)
  have "bearingToDirection (Finite b) = Some (directions ! nat (n mod 16))"
    unfolding bearingToDirection_def Let_def dq mr rem idx ..
  also have "nat (n mod 16) = nat n mod 16" using n0 by (simp add: nat_mod_distrib)
  finally have d: "bearingToDirection (Finite b) = Some (directions ! (nat n mod 16))" .
  have "(of_nat (nat n) :: rat) = of_int n" using n0 by simp
  with err d show ?thesis by metis
qed

text \<open>
  Far beyond 360 degrees the quotient is rounded to a double before the remainder is taken,
  so the point returned need not be the nearest: at 1e21 degrees the function returns N.
\<close>

lemma bearingToDirection_huge:
  "toDouble 1000000000000000000000 = Finite 1000000000000000000000
   \<and> bearingToDirection (Finite 1000000000000000000000) = Some ''N''"
  by code_simp

text \<open>
  Claim C5 fails on the code for negative bearings. The remainder \<^verbatim>\<open>% 16\<close>, which wraps 360
  degrees to 0, keeps the sign of the rounded quotient: at -45 degrees the index is -2, the
  array has nothing there, and the function returns \<^verbatim>\<open>undefined\<close> where the claim wants the
  point of 315 degrees, NW. From 0 to 360 degrees the code does what the claim says (lemma
  \<open>bearingToDirection_up_to_360\<close>), and the four bearings that the claim names give N, N, S
  and NNE.
\<close>

theorem bearingToDirection_negative_is_undefined:
  "bearingToDirection (Finite (- 45)) = None
   \<and> bearingToDirection (Finite 315) = Some ''NW''
   \<and> bearingToDirection (Finite 0) = Some ''N''
   \<and> bearingToDirection (Finite 359) = Some ''N''
   \<and> bearingToDirection (Finite 180) = Some ''S''
   \<and> bearingToDirection (Finite (45 / 2)) = Some ''NNE''"
  by code_simp

section \<open>Properties of the failure handling\<close>

lemma tryBlock_cases:
  "tryBlock transform (Rejected t) = Inl t"
  "\<not> ok r \<Longrightarrow> tryBlock transform (Resolved r) =
      Inl (ErrorInstance (''Pirate Weather API error: '' @ decimal (status r) @ '' '' @ statusText r))"
  "ok r \<Longrightarrow> json r = Inl t \<Longrightarrow> tryBlock transform (Resolved r) = Inl t"
  "ok r \<Longrightarrow> json r = Inr data \<Longrightarrow> tryBlock transform (Resolved r) = Inr (transform data)"
  by (simp_all add: tryBlock_def)

lemma fetchWith_failures:
  assumes "cfg_apiKey config = Some key" "key \<noteq> []"
    and "cfg_latitude config = Some lat" "lat \<noteq> 0"
    and "cfg_longitude config = Some lon" "lon \<noteq> 0"
  shows "(\<forall>r. fetch (buildUrl eng config) = Resolved r \<and> \<not> ok r \<longrightarrow>
            snd (fetchWith transform eng fetch config) =
              Inl (Error (''Failed to fetch Pirate Weather data: '' @ ''Pirate Weather API error: ''
                          @ decimal (status r) @ '' '' @ statusText r)))
       \<and> (\<forall>m. fetch (buildUrl eng config) = Rejected (ErrorInstance m) \<longrightarrow>
            snd (fetchWith transform eng fetch config) =
              Inl (Error (''Failed to fetch Pirate Weather data: '' @ m)))
       \<and> (\<forall>r m. fetch (buildUrl eng config) = Resolved r \<and> ok r \<and> json r = Inl (ErrorInstance m) \<longrightarrow>
            snd (fetchWith transform eng fetch config) =
              Inl (Error (''Failed to fetch Pirate Weather data: '' @ m)))
       \<and> (fetch (buildUrl eng config) = Rejected OtherValue \<longrightarrow>
            snd (fetchWith transform eng fetch config) =
              Inl (Error ''Failed to fetch Pirate Weather data''))
       \<and> (\<forall>r. fetch (buildUrl eng config) = Resolved r \<and> ok r \<and> json r = Inl OtherValue \<longrightarrow>
            snd (fetchWith transform eng fetch config) =
              Inl (Error ''Failed to fetch Pirate Weather data''))
       \<and> fst (fetchWith transform eng fetch config) = [buildUrl eng config]"
  unfolding fetchWith_valid [OF assms]
  by (auto simp: tryBlock_cases catchBlock_def)

lemma sampleConfig_valid:
  "cfg_apiKey sampleConfig = Some ''key''" "''key'' \<noteq> []"
  "cfg_latitude sampleConfig = Some 50" "(50::rat) \<noteq> 0"
  "cfg_longitude sampleConfig = Some 14" "(14::rat) \<noteq> 0"
  by (simp_all add: sampleConfig_def)

lemma sampleUrl: "buildUrl sampleEngine sampleConfig = ''https://api.pirateweather.net/forecast/key/50,14?units=si''"
  by code_simp

text \<open>
  Claim C4, as stated, fails: the error for a non-success response is thrown inside the
  \<^verbatim>\<open>try\<close> block, so the \<^verbatim>\<open>catch\<close> clause wraps it like everything else. A 404 response
  rejects with the stable prefix in front of the status message, and the rejection is the
  very same as that of a transport failure whose error has that message.
\<close>

theorem http_failure_is_wrapped_like_any_other:
  "snd (fetchWeatherAsync sampleEngine respondNotFound sampleConfig) =
     Inl (Error ''Failed to fetch Pirate Weather data: Pirate Weather API error: 404 Not Found'')
   \<and> fetchWeatherAsync sampleEngine respondNotFound sampleConfig =
     fetchWeatherAsync sampleEngine
       (rejectWithMessage ''Pirate Weather API error: 404 Not Found'') sampleConfig"
  by code_simp

text \<open>
  Claim C4, amended. With a valid configuration, exactly one URL is requested and every
  failure rejects through the one handler: a non-success response with the message
  "Failed to fetch Pirate Weather data: Pirate Weather API error: " followed by the status
  code, a space and the status text; a rejected request or an unparsable body that throws
  an \<^verbatim>\<open>Error\<close> with the same prefix followed by that error's message; anything else thrown
  with "Failed to fetch Pirate Weather data" alone.
\<close>

theorem fetchWeatherAsync_failure_messages:
  assumes "cfg_apiKey config = Some key" "key \<noteq> []"
    and "cfg_latitude config = Some lat" "lat \<noteq> 0"
    and "cfg_longitude config = Some lon" "lon \<noteq> 0"
  shows "(\<forall>r. fetch (buildUrl eng config) = Resolved r \<and> \<not> ok r \<longrightarrow>
            snd (fetchWeatherAsync eng fetch config) =
              Inl (Error (''Failed to fetch Pirate Weather data: '' @ ''Pirate Weather API error: ''
                          @ decimal (status r) @ '' '' @ statusText r))
          \<and> snd (fetchWeatherAsync_p0 eng fetch config) =
              Inl (Error (''Failed to fetch Pirate Weather data: '' @ ''Pirate Weather API error: ''
                          @ decimal (status r) @ '' '' @ statusText r)))
       \<and> (\<forall>r m. fetch (buildUrl eng config) = Rejected (ErrorInstance m)
                \<or> fetch (buildUrl eng config) = Resolved r \<and> ok r \<and> json r = Inl (ErrorInstance m) \<longrightarrow>
            snd (fetchWeatherAsync eng fetch config) =
              Inl (Error (''Failed to fetch Pirate Weather data: '' @ m))
          \<and> snd (fetchWeatherAsync_p0 eng fetch config) =
              Inl (Error (''Failed to fetch Pirate Weather data: '' @ m)))
       \<and> (\<forall>r. fetch (buildUrl eng config) = Rejected OtherValue
                \<or> fetch (buildUrl eng config) = Resolved r \<and> ok r \<and> json r = Inl OtherValue \<longrightarrow>
            snd (fetchWeatherAsync eng fetch config) =
              Inl (Error ''Failed to fetch Pirate Weather data'')
          \<and> snd (fetchWeatherAsync_p0 eng fetch config) =
              Inl (Error ''Failed to fetch Pirate Weather data''))
       \<and> fst (fetchWeatherAsync eng fetch config) = [buildUrl eng config]
       \<and> fst (fetchWeatherAsync_p0 eng fetch config) = [buildUrl eng config]"
  unfolding fetchWeatherAsync_def fetchWeatherAsync_p0_def
  using fetchWith_failures [OF assms, of fetch eng "transformResponse eng"]
    fetchWith_failures [OF assms, of fetch eng
      "\<lambda>data. transformResponse_p0 data (unitsOrMetric (cfg_units config))"]
  by blast

theorem fetchWeatherAsync_failure_messages_witness:
  "cfg_apiKey sampleConfig = Some ''key'' \<and> cfg_latitude sampleConfig = Some 50
   \<and> cfg_longitude sampleConfig = Some 14
   \<and> \<not> ok \<lparr> status = 404, statusText = ''Not Found'', json = Inl OtherValue \<rparr>
   \<and> fetchWeatherAsync sampleEngine respondNotFound sampleConfig =
       ([''https://api.pirateweather.net/forecast/key/50,14?units=si''],
        Inl (Error ''Failed to fetch Pirate Weather data: Pirate Weather API error: 404 Not Found''))
   \<and> snd (fetchWeatherAsync_p0 sampleEngine (rejectWithMessage ''Failed to fetch'') sampleConfig) =
       Inl (Error ''Failed to fetch Pirate Weather data: Failed to fetch'')"
proof -
  have n: "\<not> ok \<lparr> status = 404, statusText = ''Not Found'', json = Inl OtherValue \<rparr>"
    by (simp add: ok_def)
  have f: "respondNotFound (buildUrl sampleEngine sampleConfig) =
             Resolved \<lparr> status = 404, statusText = ''Not Found'', json = Inl OtherValue \<rparr>"
    by (simp add: respondNotFound_def)
  have g: "rejectWithMessage ''Failed to fetch'' (buildUrl sampleEngine sampleConfig) =
             Rejected (ErrorInstance ''Failed to fetch'')"
    by (simp add: rejectWithMessage_def)
  have d: "decimal 404 = ''404''" by code_simp
  from fetchWeatherAsync_failure_messages [OF sampleConfig_valid, of respondNotFound sampleEngine] f n
  have a: "snd (fetchWeatherAsync sampleEngine respondNotFound sampleConfig) =
          Inl (Error (''Failed to fetch Pirate Weather data: '' @ ''Pirate Weather API error: ''
                      @ decimal 404 @ '' '' @ ''Not Found''))"
    and b: "fst (fetchWeatherAsync sampleEngine respondNotFound sampleConfig) =
          [buildUrl sampleEngine sampleConfig]"
    by auto
  from fetchWeatherAsync_failure_messages
         [OF sampleConfig_valid, of "rejectWithMessage ''Failed to fetch''" sampleEngine] g
  have c: "snd (fetchWeatherAsync_p0 sampleEngine (rejectWithMessage ''Failed to fetch'') sampleConfig) =
          Inl (Error (''Failed to fetch Pirate Weather data: '' @ ''Failed to fetch''))"
    by blast
  from a b c show ?thesis
    using n sampleConfig_valid by (simp add: d sampleUrl prod_eq_iff)
qed

section \<open>Properties of the daily series and of the lookups\<close>



lemma getProperty_own:
  "key \<notin> set objectPrototypeKeys \<Longrightarrow>
     getProperty obj key = map_option Own (map_of obj key)"
  by (simp add: getProperty_def split: option.splits)

lemma mapIconToCondition_outside_prototype:
  assumes "icon \<notin> set objectPrototypeKeys"
  shows "mapIconToCondition icon = Own (case map_of iconMap icon of Some w \<Rightarrow> w | None \<Rightarrow> AllWeather)"
    and "mapIconToCondition_p0 icon = Own (case map_of iconMap_p0 icon of Some w \<Rightarrow> w | None \<Rightarrow> AllWeather)"
  by (simp_all add: mapIconToCondition_def mapIconToCondition_p0_def getProperty_own [OF assms]
      split: option.splits)

text \<open>
  Claim C7 fails on the code for the icon codes that name a property of
  \<^verbatim>\<open>Object.prototype\<close>. The code "constructor" is in neither copy's table, yet the lookup
  finds the inherited property, which is truthy, so the fallback after \<^verbatim>\<open>||\<close> is not
  taken: the result is that property, not \<^verbatim>\<open>Weather.All\<close>, and likewise not the fallback
  icon. Codes of the table and codes unknown everywhere behave as the claim says.
\<close>

theorem inherited_icon_code_is_not_unknown:
  "map_of iconMap ''constructor'' = None
   \<and> mapIconToCondition ''constructor'' = Inherited ''constructor''
   \<and> map_of iconMap_p0 ''constructor'' = None
   \<and> mapIconToCondition_p0 ''constructor'' = Inherited ''constructor''
   \<and> map_of iconMapping_p0 ''constructor'' = None
   \<and> getIconUrl_p0 ''constructor'' = Inherited ''constructor''
   \<and> mapIconToCondition ''rain'' = Own Rain
   \<and> mapIconToCondition ''unheard-of'' = Own AllWeather"
  by code_simp

section \<open>Properties of the readiness barrier\<close>

lemma run_snoc: "run config (evs @ [ev]) s = step config ev (run config evs s)"
  by (induction evs arbitrary: s) simp_all

lemma init_snoc:
  "initConnectCallbackAsync config (evs @ [ev]) = step config ev (initConnectCallbackAsync config evs)"
  by (simp add: initConnectCallbackAsync_def run_snoc)

lemma card_shape:
  "ready (initConnectCallbackAsync config evs) = {c. ReadyResolved c \<in> set evs}
   \<and> (case phase (initConnectCallbackAsync config evs) of
        AwaitingReady \<Rightarrow>
          effects (initConnectCallbackAsync config evs) = []
          \<and> \<not> set awaited \<subseteq> ready (initConnectCallbackAsync config evs)
      | AwaitingTranslations \<Rightarrow>
          effects (initConnectCallbackAsync config evs) = afterBarrier config
          \<and> set awaited \<subseteq> ready (initConnectCallbackAsync config evs)
      | Returned \<Rightarrow>
          (\<exists>outcome. effects (initConnectCallbackAsync config evs)
                       = afterBarrier config @ afterTranslations config outcome)
          \<and> set awaited \<subseteq> ready (initConnectCallbackAsync config evs))"
proof (induction evs rule: rev_induct)
  case Nil
  show ?case
    by (simp add: initConnectCallbackAsync_def mounted_def awaited_def)
next
  case (snoc ev evs)
  define s where "s = initConnectCallbackAsync config evs"
  note ih = snoc.IH [folded s_def]
  show ?case
  proof (cases ev)
    case (ReadyResolved c)
    have r: "{k. ReadyResolved k \<in> set (evs @ [ev])} = insert c {k. ReadyResolved k \<in> set evs}"
      using ReadyResolved by auto
    show ?thesis
      unfolding init_snoc s_def [symmetric] r
      using ih ReadyResolved
      by (cases "phase s") (auto simp: step_def Let_def list_all_iff)
  next
    case TranslationsLoaded
    have r: "{k. ReadyResolved k \<in> set (evs @ [ev])} = {k. ReadyResolved k \<in> set evs}"
      using TranslationsLoaded by auto
    show ?thesis
      unfolding init_snoc s_def [symmetric] r
      using ih TranslationsLoaded
      by (cases "phase s") (auto simp: step_def settle_def)
  next
    case (TranslationsThrew t)
    have r: "{k. ReadyResolved k \<in> set (evs @ [ev])} = {k. ReadyResolved k \<in> set evs}"
      using TranslationsThrew by auto
    show ?thesis
      unfolding init_snoc s_def [symmetric] r
      using ih TranslationsThrew
      by (cases "phase s") (auto simp: step_def settle_def)
  qed
qed


lemma ready_after_barrier:
  "phase (initConnectCallbackAsync config evs) \<noteq> AwaitingReady
     \<longleftrightarrow> (\<forall>c \<in> set awaited. ReadyResolved c \<in> set evs)"
  using card_shape [of config evs]
  by (cases "phase (initConnectCallbackAsync config evs)") auto


lemma published_by_phase:
  "published (initConnectCallbackAsync config evs) =
     (if phase (initConnectCallbackAsync config evs) = Returned \<and> \<not> truthy (showWeather config)
      then [AllWeather] else [])"
  using card_shape [of config evs]
  by (cases "phase (initConnectCallbackAsync config evs)")
     (auto simp: published_def afterBarrier_def afterTranslations_def split: option.splits)



lemma run_append: "run config (xs @ ys) s = run config ys (run config xs s)"
  by (induction xs arbitrary: s) simp_all

lemma returned_stays:
  "phase s = Returned \<Longrightarrow> phase (run config evs s) = Returned"
proof (induction evs arbitrary: s)
  case Nil
  then show ?case by simp
next
  case (Cons ev evs)
  have "phase (step config ev s) = Returned"
    using Cons.prems by (cases ev) (simp_all add: step_def settle_def Let_def)
  then show ?case using Cons.IH by simp
qed

lemma returns_after_outcome:
  assumes "\<forall>c \<in> set awaited. ReadyResolved c \<in> set pre"
    and "ev = TranslationsLoaded \<or> ev = TranslationsThrew t"
  shows "phase (initConnectCallbackAsync config (pre @ ev # post)) = Returned"
proof -
  define s where "s = initConnectCallbackAsync config pre"
  have "phase s \<noteq> AwaitingReady"
    unfolding s_def using assms(1) by (simp only: ready_after_barrier)
  then have "phase (step config ev s) = Returned"
    using assms(2) by (cases "phase s") (auto simp: step_def settle_def)
  then have "phase (run config post (step config ev s)) = Returned"
    by (rule returned_stays)
  then show ?thesis
    by (simp add: initConnectCallbackAsync_def run_append s_def)
qed

text \<open>
  Claim C8. With \<^verbatim>\<open>showWeather\<close> false: once all six readiness promises have resolved
  and the translation loading has then settled, by returning or by throwing, the function
  has returned and has published exactly one message, carrying \<^verbatim>\<open>Weather.All\<close>, whatever
  happens afterwards; at no moment has it published more than one, and none before all
  six promises resolved. With \<^verbatim>\<open>showWeather\<close> true nothing is ever published.
\<close>

theorem suppression_published_once_when_disabled:
  "(showWeather config = JBool False
      \<and> (\<forall>c \<in> set awaited. ReadyResolved c \<in> set pre)
      \<and> (ev = TranslationsLoaded \<or> ev = TranslationsThrew t) \<longrightarrow>
      phase (initConnectCallbackAsync config (pre @ ev # post)) = Returned
      \<and> published (initConnectCallbackAsync config (pre @ ev # post)) = [AllWeather])
   \<and> (showWeather config = JBool False \<longrightarrow>
      length (published (initConnectCallbackAsync config evs)) \<le> 1)
   \<and> (published (initConnectCallbackAsync config evs) \<noteq> [] \<longrightarrow>
      (\<forall>c \<in> set awaited. ReadyResolved c \<in> set evs))
   \<and> (showWeather config = JBool True \<longrightarrow> published (initConnectCallbackAsync config evs) = [])"
proof -
  have total: "showWeather config = JBool False
      \<and> (\<forall>c \<in> set awaited. ReadyResolved c \<in> set pre)
      \<and> (ev = TranslationsLoaded \<or> ev = TranslationsThrew t) \<longrightarrow>
      phase (initConnectCallbackAsync config (pre @ ev # post)) = Returned
      \<and> published (initConnectCallbackAsync config (pre @ ev # post)) = [AllWeather]"
  proof (intro impI, elim conjE)
    assume f: "showWeather config = JBool False"
      and r: "\<forall>c \<in> set awaited. ReadyResolved c \<in> set pre"
      and o: "ev = TranslationsLoaded \<or> ev = TranslationsThrew t"
    from returns_after_outcome [OF r o]
    have p: "phase (initConnectCallbackAsync config (pre @ ev # post)) = Returned" .
    then show "phase (initConnectCallbackAsync config (pre @ ev # post)) = Returned
      \<and> published (initConnectCallbackAsync config (pre @ ev # post)) = [AllWeather]"
      unfolding published_by_phase using f by (simp add: truthy_def)
  qed
  have "published (initConnectCallbackAsync config evs) \<noteq> [] \<longrightarrow>
      phase (initConnectCallbackAsync config evs) \<noteq> AwaitingReady"
    unfolding published_by_phase by simp
  then have rest: "(showWeather config = JBool False \<longrightarrow>
      length (published (initConnectCallbackAsync config evs)) \<le> 1)
   \<and> (published (initConnectCallbackAsync config evs) \<noteq> [] \<longrightarrow>
      (\<forall>c \<in> set awaited. ReadyResolved c \<in> set evs))
   \<and> (showWeather config = JBool True \<longrightarrow> published (initConnectCallbackAsync config evs) = [])"
    unfolding ready_after_barrier published_by_phase
    by (simp add: truthy_def)
  from total rest show ?thesis by blast
qed

lemma allReady_covers: "\<forall>c \<in> set awaited. ReadyResolved c \<in> set allReady"
  by (simp add: awaited_def allReady_def)

theorem suppression_published_once_when_disabled_witness:
  "showWeather weatherOffConfig = JBool False
   \<and> published (initConnectCallbackAsync weatherOffConfig
        (allReady @ TranslationsThrew (ErrorInstance ''offline'') # [TranslationsLoaded]))
       = [AllWeather]
   \<and> published (initConnectCallbackAsync weatherOffConfig (allReady @ TranslationsLoaded # []))
       = [AllWeather]
   \<and> published (initConnectCallbackAsync weatherOffConfig allReady) = []
   \<and> showWeather weatherOnConfig = JBool True
   \<and> published (initConnectCallbackAsync weatherOnConfig (allReady @ [TranslationsLoaded])) = []"
proof -
  have off: "showWeather weatherOffConfig = JBool False"
    and on: "showWeather weatherOnConfig = JBool True"
    by (simp_all add: weatherOffConfig_def weatherOnConfig_def)
  have q: "published (initConnectCallbackAsync weatherOffConfig allReady) = []"
    by code_simp
  from suppression_published_once_when_disabled
         [of weatherOffConfig allReady "TranslationsThrew (ErrorInstance ''offline'')"
             "ErrorInstance ''offline''" "[TranslationsLoaded]"]
       suppression_published_once_when_disabled
         [of weatherOffConfig allReady TranslationsLoaded _ "[]"]
       suppression_published_once_when_disabled
         [of weatherOnConfig _ _ _ _ "allReady @ [TranslationsLoaded]"]
       off on q allReady_covers
  show ?thesis by simp
qed

text \<open>
  Claim C9. The guard tests falsiness: with \<^verbatim>\<open>showWeather\<close> undefined, null, false, zero,
  NaN or the empty string, once all six readiness promises have resolved and the
  translation loading has then settled either way, the function has returned and has
  published the suppression message; with any other value it never publishes anything.
\<close>

theorem suppression_published_for_falsy_showWeather:
  "(showWeather config \<in> {JUndefined, JNull, JBool False, JNumber 0, JNaN, JString []}
      \<and> (\<forall>c \<in> set awaited. ReadyResolved c \<in> set pre)
      \<and> (ev = TranslationsLoaded \<or> ev = TranslationsThrew t) \<longrightarrow>
      phase (initConnectCallbackAsync config (pre @ ev # post)) = Returned
      \<and> published (initConnectCallbackAsync config (pre @ ev # post)) = [AllWeather])
   \<and> (showWeather config \<notin> {JUndefined, JNull, JBool False, JNumber 0, JNaN, JString []} \<longrightarrow>
      published (initConnectCallbackAsync config evs) = [])"
proof -
  have tr: "truthy (showWeather config) \<longleftrightarrow>
          showWeather config \<notin> {JUndefined, JNull, JBool False, JNumber 0, JNaN, JString []}"
    by (cases "showWeather config") (simp_all add: truthy_def)
  have total: "showWeather config \<in> {JUndefined, JNull, JBool False, JNumber 0, JNaN, JString []}
      \<and> (\<forall>c \<in> set awaited. ReadyResolved c \<in> set pre)
      \<and> (ev = TranslationsLoaded \<or> ev = TranslationsThrew t) \<longrightarrow>
      phase (initConnectCallbackAsync config (pre @ ev # post)) = Returned
      \<and> published (initConnectCallbackAsync config (pre @ ev # post)) = [AllWeather]"
  proof (intro impI, elim conjE)
    assume f: "showWeather config \<in> {JUndefined, JNull, JBool False, JNumber 0, JNaN, JString []}"
      and r: "\<forall>c \<in> set awaited. ReadyResolved c \<in> set pre"
      and o: "ev = TranslationsLoaded \<or> ev = TranslationsThrew t"
    from returns_after_outcome [OF r o]
    have p: "phase (initConnectCallbackAsync config (pre @ ev # post)) = Returned" .
    from f tr have "\<not> truthy (showWeather config)" by blast
    with p show "phase (initConnectCallbackAsync config (pre @ ev # post)) = Returned
      \<and> published (initConnectCallbackAsync config (pre @ ev # post)) = [AllWeather]"
      unfolding published_by_phase by simp
  qed
  have rest: "showWeather config \<notin> {JUndefined, JNull, JBool False, JNumber 0, JNaN, JString []} \<longrightarrow>
      published (initConnectCallbackAsync config evs) = []"
    unfolding published_by_phase using tr by simp
  from total rest show ?thesis by blast
qed

theorem suppression_published_for_falsy_showWeather_witness:
  "showWeather weatherUnsetConfig = JUndefined
   \<and> published (initConnectCallbackAsync weatherUnsetConfig
        (allReady @ TranslationsThrew (ErrorInstance ''offline'') # []))
       = [AllWeather]
   \<and> published (initConnectCallbackAsync weatherUnsetConfig
        (fiveReady @ allReady @ TranslationsLoaded # fiveReady))
       = [AllWeather]
   \<and> showWeather weatherOnConfig = JBool True
   \<and> published (initConnectCallbackAsync weatherOnConfig (allReady @ [TranslationsLoaded])) = []"
proof -
  have u: "showWeather weatherUnsetConfig = JUndefined"
    and t: "showWeather weatherOnConfig = JBool True"
    by (simp_all add: weatherUnsetConfig_def weatherOnConfig_def)
  have c: "\<forall>c \<in> set awaited. ReadyResolved c \<in> set (fiveReady @ allReady)"
    using allReady_covers by simp
  from suppression_published_for_falsy_showWeather
         [of weatherUnsetConfig allReady "TranslationsThrew (ErrorInstance ''offline'')"
             "ErrorInstance ''offline''" "[]"]
       suppression_published_for_falsy_showWeather
         [of weatherUnsetConfig "fiveReady @ allReady" TranslationsLoaded _ fiveReady]
       suppression_published_for_falsy_showWeather
         [of weatherOnConfig _ _ _ _ "allReady @ [TranslationsLoaded]"]
       u t c allReady_covers
  show ?thesis by simp
qed

end
